theory Spec2Isabelle
  imports Main "HOL-Library.AList"
begin

section \<open>Auto-Glyph: strings, the lexicon and the response validator\<close>

subsection \<open>Python strings\<close>

text \<open>
  A Python \<open>str\<close> is a sequence of Unicode code points: \<open>len\<close> counts code points and
  \<open>strip\<close> removes code points. A string is therefore a list of code points, each a
  natural number. \<open>ascii\<close> embeds an ASCII literal.
\<close>

type_synonym pystr = "nat list"

definition ascii :: "string \<Rightarrow> pystr" where
  "ascii s = map of_char s"

text \<open>
  \<open>str.isspace\<close> for one code point, as CPython's Unicode database has it: the
  characters that \<open>str.strip()\<close> without arguments removes.
\<close>

definition is_space :: "nat \<Rightarrow> bool" where
  "is_space c \<longleftrightarrow>
     (9 \<le> c \<and> c \<le> 13) \<or> (28 \<le> c \<and> c \<le> 32) \<or> c = 133 \<or> c = 160 \<or> c = 5760 \<or>
     (8192 \<le> c \<and> c \<le> 8202) \<or> c = 8232 \<or> c = 8233 \<or> c = 8239 \<or> c = 8287 \<or> c = 12288"

definition strip :: "pystr \<Rightarrow> pystr" where
  "strip s = rev (dropWhile is_space (rev (dropWhile is_space s)))"

text \<open>\<open>sep.join(parts)\<close>.\<close>

fun join :: "pystr \<Rightarrow> pystr list \<Rightarrow> pystr" where
  "join sep [] = []"
| "join sep [p] = p"
| "join sep (p # q # ps) = p @ sep @ join sep (q # ps)"

text \<open>
  \<open>s.split(",")\<close>: the pieces between the commas (code point 44); the result is never
  the empty list, and an empty string gives one empty piece.
\<close>

fun split_comma :: "pystr \<Rightarrow> pystr list" where
  "split_comma [] = [[]]"
| "split_comma (c # cs) =
     (if c = 44 then [] # split_comma cs
      else (case split_comma cs of
              [] \<Rightarrow> [[c]]
            | p # ps \<Rightarrow> (c # p) # ps))"

subsection \<open>The glyph lexicon\<close>

record glyph_data =
  name :: pystr
  meanings :: "pystr list"
  archetypes :: "pystr list"
  requires_permission :: bool

text \<open>
  The seven keys of \<open>GLYPH_LEXICON\<close>, as the code points the source file holds when it is
  read as UTF-8 (its coding line). A \<open>dict\<close> literal keeps insertion order, so the
  lexicon is an association list.
\<close>

definition glyph_paradox :: pystr where "glyph_paradox = [226, 376]"
definition glyph_witness :: pystr where "glyph_witness = [226, 353, 175]"
definition glyph_recursion :: pystr where "glyph_recursion = [226, 710, 183]"
definition glyph_eternal :: pystr where "glyph_eternal = [226, 710, 382]"
definition glyph_breath :: pystr where "glyph_breath = [240, 376, 339]"
definition glyph_temporal :: pystr where "glyph_temporal = [226, 167, 8211]"
definition glyph_threshold :: pystr where "glyph_threshold = [226, 8218]"

definition GLYPH_LEXICON :: "(pystr \<times> glyph_data) list" where
  "GLYPH_LEXICON =
    [(glyph_paradox,
       \<lparr>name = ascii ''Paradox Glyph'',
        meanings = map ascii [''paradox'', ''complex systems'', ''collapse'', ''fragmentation'',
                              ''ambiguous truth''],
        archetypes = map ascii [''The Trickster'', ''The Puzzle'', ''The Labyrinth''],
        requires_permission = False\<rparr>),
     (glyph_witness,
       \<lparr>name = ascii ''Dual Witness Glyph'',
        meanings = map ascii [''witnessing'', ''mirroring'', ''trauma'', ''grief'', ''duality'',
                              ''entanglement''],
        archetypes = map ascii [''The Twins'', ''The Mirror'', ''The Echo''],
        requires_permission = False\<rparr>),
     (glyph_recursion,
       \<lparr>name = ascii ''Recursion Glyph'',
        meanings = map ascii [''loops'', ''recursion'', ''patterns'', ''iteration'',
                              ''self-reference''],
        archetypes = map ascii [''The Ouroboros'', ''The Fractal'', ''The Algorithm''],
        requires_permission = False\<rparr>),
     (glyph_eternal,
       \<lparr>name = ascii ''Eternal Glyph'',
        meanings = map ascii [''memory'', ''eternity'', ''cycles'', ''immortality'',
                              ''permanence''],
        archetypes = map ascii [''The Ancient'', ''The Monument'', ''The Timeless''],
        requires_permission = False\<rparr>),
     (glyph_breath,
       \<lparr>name = ascii ''Breath Glyph'',
        meanings = map ascii [''breath'', ''spirit'', ''transformation'', ''air'', ''alchemy''],
        archetypes = map ascii [''The Wind'', ''The Phoenix'', ''The Alchemist''],
        requires_permission = False\<rparr>),
     (glyph_temporal,
       \<lparr>name = ascii ''Temporal Fold'',
        meanings = map ascii [''time dilation'', ''deja vu'', ''temporal distortion''],
        archetypes = map ascii [''The Timekeeper'', ''The Prophet''],
        requires_permission = True\<rparr>),
     (glyph_threshold,
       \<lparr>name = ascii ''Threshold Marker'',
        meanings = map ascii [''initiation'', ''portals'', ''boundary crossing''],
        archetypes = map ascii [''The Gatekeeper'', ''The Wanderer''],
        requires_permission = True\<rparr>)]"

text \<open>\<open>g in GLYPH_LEXICON\<close>: membership in a dict is membership among its keys.\<close>

definition in_lexicon :: "pystr \<Rightarrow> bool" where
  "in_lexicon g \<longleftrightarrow> g \<in> set (map fst GLYPH_LEXICON)"

subsection \<open>The response validator\<close>

text \<open>
  \<open>[g.strip() for g in glyphs if g.strip() in GLYPH_LEXICON]\<close>
\<close>

definition valid_glyphs :: "pystr list \<Rightarrow> pystr list" where
  "valid_glyphs glyphs = map strip (filter (\<lambda>g. in_lexicon (strip g)) glyphs)"

text \<open>
  \<open>{g for g, data in GLYPH_LEXICON.items() if data["requires_permission"]}\<close>, kept as
  the list of its members in lexicon order; it is only used for membership tests.
\<close>

definition permission_glyphs :: "pystr list" where
  "permission_glyphs = map fst (filter (\<lambda>(g, data). requires_permission data) GLYPH_LEXICON)"

text \<open>
  The same set in the words of the specification: a symbol is permission-gated when its
  lexicon entry has the permission flag.
\<close>

definition permission_gated :: "pystr \<Rightarrow> bool" where
  "permission_gated g \<longleftrightarrow>
     (case map_of GLYPH_LEXICON g of None \<Rightarrow> False | Some data \<Rightarrow> requires_permission data)"

definition validate_glyphstream :: "pystr list \<Rightarrow> bool \<Rightarrow> pystr list" where
  "validate_glyphstream glyphs is_personal =
     (let vs = valid_glyphs glyphs in
      if \<not> is_personal \<and> \<not> list_ex (\<lambda>g. g \<in> set permission_glyphs) vs then []
      else take (if is_personal then 3 else 7) vs)"

subsection \<open>The prompt builder\<close>

definition glyph_description :: "pystr \<times> glyph_data \<Rightarrow> pystr" where
  "glyph_description = (\<lambda>(glyph, data).
     glyph @ ascii '' ('' @ name data @ ascii ''): '' @ join (ascii '', '') (meanings data) @
     (if requires_permission data then ascii '' [REQUIRES PERMISSION]'' else []))"

definition rules :: pystr where
  "rules =
     ascii ''Rules:\<newline>- Max 3 glyphs for personal streams\<newline>'' @
     ascii ''- Max 7 glyphs for shared experiences\<newline>'' @
     ascii ''- Permission glyphs ('' @ glyph_temporal @ ascii '', '' @ glyph_threshold @
     ascii '') required for shared streams''"

text \<open>The argument is not used by the source either: the text is the same for both kinds.\<close>

definition generate_glyph_prompt :: "bool \<Rightarrow> pystr" where
  "generate_glyph_prompt is_personal_stream =
     ascii ''Analyze the text and select the most representative glyphs:\<newline>'' @
     ascii ''    \<newline>Available Glyphs:\<newline>'' @
     join (ascii '' | '') (map glyph_description GLYPH_LEXICON) @
     ascii ''\<newline>\<newline>'' @ rules @
     ascii ''\<newline>\<newline>Return ONLY the chosen glyphs as comma-separated characters.''"

section \<open>Values, exceptions and the environment\<close>

subsection \<open>Python values\<close>

text \<open>
  The values a YAML header or a chat completion holds. A \<open>dict\<close> is an association list
  in insertion order with string keys. A float is kept as mantissa and binary exponent;
  nothing below computes with it.
\<close>

datatype pyval =
    PNone
  | PBool bool
  | PInt int
  | PFloat int int
  | PStr pystr
  | PList "pyval list"
  | PDict "(pystr \<times> pyval) list"

text \<open>
  Exceptions are values. The interpreter's own exceptions carry what raised them; an
  exception raised inside an external library (the front-matter reader, YAML, the model
  runtime, the operating system) carries its type name and its message. All of them are
  instances of \<open>Exception\<close>, which is what the source's handlers catch.
\<close>

datatype pyexn =
    KeyError pyval
  | IndexError
  | TypeError
  | AttributeError
  | UnicodeEncodeError
  | Raised pystr pystr

text \<open>\<open>type(e).__name__\<close>\<close>

fun exn_name :: "pyexn \<Rightarrow> pystr" where
  "exn_name (KeyError k) = ascii ''KeyError''"
| "exn_name IndexError = ascii ''IndexError''"
| "exn_name TypeError = ascii ''TypeError''"
| "exn_name AttributeError = ascii ''AttributeError''"
| "exn_name UnicodeEncodeError = ascii ''UnicodeEncodeError''"
| "exn_name (Raised ty msg) = ty"

text \<open>Sequencing of computations that may raise.\<close>

definition bind_exn :: "pyexn + 'a \<Rightarrow> ('a \<Rightarrow> pyexn + 'b) \<Rightarrow> pyexn + 'b" where
  "bind_exn r f = (case r of Inl x \<Rightarrow> Inl x | Inr v \<Rightarrow> f v)"

text \<open>\<open>key in d\<close> and \<open>d.get(key, default)\<close> on a dict.\<close>

definition dict_has :: "(pystr \<times> pyval) list \<Rightarrow> pystr \<Rightarrow> bool" where
  "dict_has d k \<longleftrightarrow> map_of d k \<noteq> None"

definition dict_get :: "(pystr \<times> pyval) list \<Rightarrow> pystr \<Rightarrow> pyval \<Rightarrow> pyval" where
  "dict_get d k dflt = (case map_of d k of None \<Rightarrow> dflt | Some v \<Rightarrow> v)"

text \<open>\<open>needle in hay\<close> for two strings: \<open>needle\<close> occurs in \<open>hay\<close> as a substring.\<close>

fun py_str_contains :: "pystr \<Rightarrow> pystr \<Rightarrow> bool" where
  "py_str_contains needle [] \<longleftrightarrow> needle = []"
| "py_str_contains needle (c # cs) \<longleftrightarrow>
     take (length needle) (c # cs) = needle \<or> py_str_contains needle cs"

text \<open>
  \<open>x in v\<close> for a string \<open>x\<close>: substring test on a string, equality with an element
  on a list, key membership on a dict, and \<open>TypeError\<close> on a value that is not a
  container.
\<close>

fun py_contains :: "pystr \<Rightarrow> pyval \<Rightarrow> pyexn + bool" where
  "py_contains x (PStr s) = Inr (py_str_contains x s)"
| "py_contains x (PList vs) = Inr (list_ex (\<lambda>v. v = PStr x) vs)"
| "py_contains x (PDict d) = Inr (dict_has d x)"
| "py_contains x PNone = Inl TypeError"
| "py_contains x (PBool b) = Inl TypeError"
| "py_contains x (PInt i) = Inl TypeError"
| "py_contains x (PFloat m ex) = Inl TypeError"

text \<open>\<open>v[key]\<close> for a string key, \<open>v[0]\<close>, and \<open>v.strip()\<close>.\<close>

fun subscript_key :: "pyval \<Rightarrow> pystr \<Rightarrow> pyexn + pyval" where
  "subscript_key (PDict d) k = (case map_of d k of None \<Rightarrow> Inl (KeyError (PStr k)) | Some v \<Rightarrow> Inr v)"
| "subscript_key v k = Inl TypeError"

fun subscript_zero :: "pyval \<Rightarrow> pyexn + pyval" where
  "subscript_zero (PList []) = Inl IndexError"
| "subscript_zero (PList (v # vs)) = Inr v"
| "subscript_zero (PStr []) = Inl IndexError"
| "subscript_zero (PStr (c # cs)) = Inr (PStr [c])"
| "subscript_zero (PDict d) = Inl (KeyError (PInt 0))"
| "subscript_zero v = Inl TypeError"

fun strip_method :: "pyval \<Rightarrow> pyexn + pystr" where
  "strip_method (PStr s) = Inr (strip s)"
| "strip_method v = Inl AttributeError"

subsection \<open>Text files\<close>

text \<open>
  A file on disk holds bytes. The source opens every file as UTF-8 text, so a string
  reaches the disk through the UTF-8 encoder, which raises \<open>UnicodeEncodeError\<close> on a
  surrogate code point (\<open>U+D800\<close> to \<open>U+DFFF\<close>) and encodes every other code point.
  A surrogate is what Python puts into a file name for a byte that is not valid UTF-8.
\<close>

type_synonym bytes = "nat list"

definition surrogate :: "nat \<Rightarrow> bool" where
  "surrogate c \<longleftrightarrow> 55296 \<le> c \<and> c \<le> 57343"

definition encodable :: "pystr \<Rightarrow> bool" where
  "encodable s \<longleftrightarrow> \<not> list_ex surrogate s"

definition utf8_code_point :: "nat \<Rightarrow> bytes" where
  "utf8_code_point c =
     (if c < 128 then [c]
      else if c < 2048 then [192 + c div 64, 128 + c mod 64]
      else if c < 65536 then [224 + c div 4096, 128 + c div 64 mod 64, 128 + c mod 64]
      else [240 + c div 262144, 128 + c div 4096 mod 64, 128 + c div 64 mod 64, 128 + c mod 64])"

definition utf8_encode :: "pystr \<Rightarrow> pyexn + bytes" where
  "utf8_encode s =
     (if encodable s then Inr (concat (map utf8_code_point s)) else Inl UnicodeEncodeError)"

subsection \<open>Notes, the audit log and the world\<close>

text \<open>A path under the vault: its directory and its final component (\<open>md_file.name\<close>).\<close>

datatype path = Path (parent: "pystr list") (file_name: pystr)

text \<open>What \<open>frontmatter.load\<close> returns: the header as a dict and the body text.\<close>

record post =
  metadata :: "(pystr \<times> pyval) list"
  content :: pystr

datatype action = SKIPPED | UPDATED | WRITE_FAILED | NO_MATCH | ERROR

record log_entry =
  timestamp :: pystr
  entry_file :: pystr
  action :: action
  glyphs :: "pystr list"
  run_id :: pystr
  error :: "pystr option"

text \<open>
  How the operating system fails a write of a note, if it does: opening the file raises
  (and the file stays as it was), or an error is raised after the file was opened, when
  only the first \<open>k\<close> of the bytes handed to the file have reached the disk. The file
  is buffered, so \<open>k\<close> can fall anywhere, also inside a statement's text.
\<close>

datatype write_fault = AtOpen | AfterOpen nat

text \<open>
  Everything outside the source file is a parameter: the model runtime, the front-matter
  reader, YAML, the directory traversal, the clock and the faults of the file system.
  \<^item> \<open>llm_init\<close>: the exception \<open>initialize_llm\<close> raises, if any;
  \<^item> \<open>rglob_md\<close>: the paths \<open>VAULT_PATH.rglob("*.md")\<close> yields, in its order;
  \<^item> \<open>fm_load\<close>: \<open>frontmatter.load\<close> on a path and the bytes found there
    (\<open>None\<close> when there is no such file);
  \<^item> \<open>create_chat_completion\<close>: the model's answer to the \<open>n\<close>-th request, given
    its system and user messages (temperature and token budget are constants of the call);
  \<^item> \<open>yaml_roundtrip\<close>: \<open>yaml.safe_load(yaml.safe_dump(value, allow_unicode=True))\<close>;
  \<^item> \<open>yaml_dump\<close>: the text \<open>yaml.dump\<close> writes for a header, or the exception it
    raises together with the text it wrote before raising;
  \<^item> \<open>io_fault\<close>: how writing a given note fails, if it does;
  \<^item> \<open>log_fault\<close>: the exception the operating system raises when the log file is
    opened or created at a given time (the number of clock readings so far), if any;
  \<^item> \<open>now_isoformat\<close>, \<open>now_run_id\<close>: the two renderings of the \<open>n\<close>-th reading
    of the clock;
  \<^item> \<open>exn_str\<close>: \<open>str(e)\<close>.
\<close>

record env =
  llm_init :: "pyexn option"
  rglob_md :: "path list"
  fm_load :: "path \<Rightarrow> bytes option \<Rightarrow> pyexn + post"
  create_chat_completion :: "nat \<Rightarrow> pystr \<Rightarrow> pystr \<Rightarrow> pyexn + pyval"
  yaml_roundtrip :: "pyval \<Rightarrow> pyexn + pyval"
  yaml_dump :: "(pystr \<times> pyval) list \<Rightarrow> (pyexn \<times> pystr) + pystr"
  io_fault :: "path \<Rightarrow> write_fault option"
  log_fault :: "nat \<Rightarrow> pyexn option"
  now_isoformat :: "nat \<Rightarrow> pystr"
  now_run_id :: "nat \<Rightarrow> pystr"
  exn_str :: "pyexn \<Rightarrow> pystr"

text \<open>
  The state the run changes: the bytes of the note files on disk, the audit log file
  (\<open>None\<close> while it does not exist; one record per complete JSON line), the requests
  sent to the model so far (system and user message), and the number of clock readings
  so far.
\<close>

record state =
  fs :: "path \<rightharpoonup> bytes"
  log :: "log_entry list option"
  llm_trace :: "(pystr \<times> pystr) list"
  clock :: nat

section \<open>The operations of the source\<close>

subsection \<open>The audit log\<close>

definition log_lines :: "state \<Rightarrow> log_entry list" where
  "log_lines s = (case log s of None \<Rightarrow> [] | Some ls \<Rightarrow> ls)"

text \<open>The entry \<open>log_assignment\<close> builds: it reads the clock twice.\<close>

definition new_entry ::
  "env \<Rightarrow> pystr \<Rightarrow> pystr list \<Rightarrow> action \<Rightarrow> pystr option \<Rightarrow> state \<Rightarrow> log_entry" where
  "new_entry e filename gs act err s =
     \<lparr>timestamp = now_isoformat e (clock s), entry_file = filename, action = act,
      glyphs = gs, run_id = now_run_id e (Suc (clock s)), error = err\<rparr>"

text \<open>
  \<open>json.dumps(entry, ensure_ascii=False)\<close> copies the code points of every string of
  the entry into the line, apart from the quote, the backslash and the control
  characters, which it escapes. The line can therefore be encoded as UTF-8 exactly when
  none of these strings holds a surrogate.
\<close>

definition entry_encodable :: "log_entry \<Rightarrow> bool" where
  "entry_encodable en \<longleftrightarrow>
     encodable (timestamp en) \<and> encodable (entry_file en) \<and> list_all encodable (glyphs en) \<and>
     encodable (run_id en) \<and> (case error en of None \<Rightarrow> True | Some msg \<Rightarrow> encodable msg)"

text \<open>The state after an append that succeeded: one more line, after the lines that were there.\<close>

definition appended ::
  "env \<Rightarrow> pystr \<Rightarrow> pystr list \<Rightarrow> action \<Rightarrow> pystr option \<Rightarrow> state \<Rightarrow> state" where
  "appended e filename gs act err s =
     s\<lparr>log := Some (log_lines s @ [new_entry e filename gs act err s]),
       clock := clock s + 2\<rparr>"

text \<open>
  \<open>log_assignment\<close>: build the entry, open the log with mode \<open>"a"\<close> (which creates the
  file when it is absent and keeps what is there, and which the operating system may
  refuse), and write the line. Writing encodes the line; when that raises, nothing has
  been written. A line that a full disk cuts short is not an entry and is not
  represented. \<open>print\<close> and \<open>time.sleep\<close> are taken not to raise.
\<close>

definition log_assignment ::
  "env \<Rightarrow> pystr \<Rightarrow> pystr list \<Rightarrow> action \<Rightarrow> pystr option \<Rightarrow> state \<Rightarrow> (pyexn + unit) \<times> state" where
  "log_assignment e filename gs act err s =
     (case log_fault e (clock s) of
        Some x \<Rightarrow> (Inl x, s\<lparr>clock := clock s + 2\<rparr>)
      | None \<Rightarrow>
          if entry_encodable (new_entry e filename gs act err s)
          then (Inr (), appended e filename gs act err s)
          else (Inl UnicodeEncodeError, s\<lparr>log := Some (log_lines s), clock := clock s + 2\<rparr>))"

subsection \<open>Writing a note\<close>

text \<open>\<open>isinstance(value, (str, int, float, bool, list))\<close>\<close>

fun is_plain :: "pyval \<Rightarrow> bool" where
  "is_plain (PStr s) = True"
| "is_plain (PInt i) = True"
| "is_plain (PFloat m ex) = True"
| "is_plain (PBool b) = True"
| "is_plain (PList vs) = True"
| "is_plain PNone = False"
| "is_plain (PDict d) = False"

text \<open>The loop that fills \<open>safe_metadata\<close>; it stops at the first exception.\<close>

fun safe_metadata :: "env \<Rightarrow> (pystr \<times> pyval) list \<Rightarrow> pyexn + (pystr \<times> pyval) list" where
  "safe_metadata e [] = Inr []"
| "safe_metadata e ((key, v) # kvs) =
     bind_exn (if is_plain v then Inr v else yaml_roundtrip e v)
       (\<lambda>v'. bind_exn (safe_metadata e kvs) (\<lambda>r. Inr ((key, v') # r)))"

definition start_marker :: pystr where
  "start_marker = ascii ''---\<newline>''"

definition end_marker :: pystr where
  "end_marker = ascii ''---\<newline>\<newline>''"

text \<open>
  The statements of the \<open>with\<close> block, on the bytes handed to the file so far and the
  exception raised so far, if any. A statement after a raising one is not executed.
  \<open>f.write(txt)\<close> encodes its text and hands it over, or raises without handing over
  anything.
\<close>

definition f_write :: "pystr \<Rightarrow> bytes \<times> pyexn option \<Rightarrow> bytes \<times> pyexn option" where
  "f_write txt = (\<lambda>(buf, raised).
     case raised of
       Some x \<Rightarrow> (buf, Some x)
     | None \<Rightarrow> (case utf8_encode txt of
                  Inl x \<Rightarrow> (buf, Some x)
                | Inr b \<Rightarrow> (buf @ b, None)))"

text \<open>\<open>yaml.dump(safe_metadata, f, ...)\<close> writes its text to the file, all of it or a part of it.\<close>

definition f_dump ::
  "env \<Rightarrow> (pystr \<times> pyval) list \<Rightarrow> bytes \<times> pyexn option \<Rightarrow> bytes \<times> pyexn option" where
  "f_dump e safe = (\<lambda>(buf, raised).
     case raised of
       Some x \<Rightarrow> (buf, Some x)
     | None \<Rightarrow> (case yaml_dump e safe of
                  Inl (x, part) \<Rightarrow> (case utf8_encode part of
                                      Inl y \<Rightarrow> (buf, Some y)
                                    | Inr b \<Rightarrow> (buf @ b, Some x))
                | Inr dumped \<Rightarrow> f_write dumped (buf, None)))"

definition with_block :: "env \<Rightarrow> (pystr \<times> pyval) list \<Rightarrow> pystr \<Rightarrow> bytes \<times> pyexn option" where
  "with_block e safe body =
     f_write (strip body)
       (f_write end_marker
         (f_dump e safe
           (f_write start_marker ([], None))))"

text \<open>
  \<open>write_obsidian_file\<close>: the handler turns any exception of the \<open>try\<close> block into
  \<open>False\<close>. Preparing the header touches no file. \<open>open(file_path, 'w')\<close> empties or
  creates the file, unless it raises. Leaving the \<open>with\<close> block, normally or by an
  exception, closes the file, which puts on disk the bytes handed over so far; when the
  operating system fails in between, only a prefix of them is there.
\<close>

definition write_obsidian_file ::
  "env \<Rightarrow> path \<Rightarrow> (pystr \<times> pyval) list \<Rightarrow> pystr \<Rightarrow> state \<Rightarrow> bool \<times> state" where
  "write_obsidian_file e file_path md body s =
     (case safe_metadata e md of
        Inl x \<Rightarrow> (False, s)
      | Inr safe \<Rightarrow>
          (case io_fault e file_path of
             Some AtOpen \<Rightarrow> (False, s)
           | Some (AfterOpen k) \<Rightarrow>
               (False, s\<lparr>fs := (fs s)(file_path \<mapsto> take k (fst (with_block e safe body)))\<rparr>)
           | None \<Rightarrow>
               (case with_block e safe body of
                  (buf, raised) \<Rightarrow> (raised = None, s\<lparr>fs := (fs s)(file_path \<mapsto> buf)\<rparr>))))"

subsection \<open>The glyph assigner\<close>

text \<open>\<open>response['choices'][0]['message']['content'].strip()\<close>\<close>

definition extract_content :: "pyval \<Rightarrow> pyexn + pystr" where
  "extract_content response =
     bind_exn (subscript_key response (ascii ''choices'')) (\<lambda>choices.
     bind_exn (subscript_zero choices) (\<lambda>choice.
     bind_exn (subscript_key choice (ascii ''message'')) (\<lambda>message.
     bind_exn (subscript_key message (ascii ''content'')) strip_method)))"

definition user_message :: "pystr \<Rightarrow> pystr" where
  "user_message text = ascii ''Text to analyze:\<newline>\<newline>'' @ take 3000 text"

text \<open>
  The body of the \<open>try\<close> block: one request to the model, then extraction, splitting and
  validation. The request is recorded whether or not the model answers it.
\<close>

definition llm_request :: "env \<Rightarrow> pystr \<Rightarrow> bool \<Rightarrow> state \<Rightarrow> (pyexn + pystr list) \<times> state" where
  "llm_request e text is_personal_stream s =
     (let sys = generate_glyph_prompt is_personal_stream;
          usr = user_message text
      in (bind_exn (create_chat_completion e (length (llm_trace s)) sys usr) (\<lambda>response.
          bind_exn (extract_content response) (\<lambda>raw_output.
          Inr (validate_glyphstream (split_comma raw_output) is_personal_stream))),
          s\<lparr>llm_trace := llm_trace s @ [(sys, usr)]\<rparr>))"

definition llm_assign_glyphs :: "env \<Rightarrow> pystr \<Rightarrow> bool \<Rightarrow> state \<Rightarrow> pystr list \<times> state" where
  "llm_assign_glyphs e text is_personal_stream s =
     (if length text < 50 then ([], s)
      else (case llm_request e text is_personal_stream s of
              (Inl x, s') \<Rightarrow> ([], s')
            | (Inr gs, s') \<Rightarrow> (gs, s')))"

subsection \<open>The note processor\<close>

text \<open>\<open>frontmatter.load(md_file)\<close> reads what is on disk at the path.\<close>

definition frontmatter_load :: "env \<Rightarrow> state \<Rightarrow> path \<Rightarrow> pyexn + post" where
  "frontmatter_load e s md_file = fm_load e md_file (fs s md_file)"

text \<open>\<open>"shared_experience" not in post.metadata.get("tags", [])\<close>\<close>

definition is_personal_of :: "(pystr \<times> pyval) list \<Rightarrow> pyexn + bool" where
  "is_personal_of md =
     bind_exn (py_contains (ascii ''shared_experience'') (dict_get md (ascii ''tags'') (PList [])))
       (\<lambda>found. Inr (\<not> found))"

text \<open>The value of one entry of \<open>glyph_metadata\<close>.\<close>

definition glyph_entry :: "glyph_data \<Rightarrow> pyval" where
  "glyph_entry data =
     PDict [(ascii ''name'', PStr (name data)),
            (ascii ''meanings'', PList (map PStr (meanings data))),
            (ascii ''archetypes'', PList (map PStr (archetypes data))),
            (ascii ''requires_permission'', PBool (requires_permission data))]"

text \<open>
  The dict comprehension over \<open>glyphstream\<close>: \<open>GLYPH_LEXICON[glyph]\<close> raises
  \<open>KeyError\<close> for a symbol that is not a key, and a repeated symbol overwrites its entry
  in place.
\<close>

fun glyph_metadata_from :: "pystr list \<Rightarrow> (pystr \<times> pyval) list \<Rightarrow> pyexn + (pystr \<times> pyval) list" where
  "glyph_metadata_from [] acc = Inr acc"
| "glyph_metadata_from (glyph # gs) acc =
     (case map_of GLYPH_LEXICON glyph of
        None \<Rightarrow> Inl (KeyError (PStr glyph))
      | Some data \<Rightarrow> glyph_metadata_from gs (AList.update glyph (glyph_entry data) acc))"

text \<open>\<open>post.metadata.update({...})\<close>: a key already there keeps its place, a new key goes last.\<close>

definition update_metadata ::
  "(pystr \<times> pyval) list \<Rightarrow> pystr list \<Rightarrow> (pystr \<times> pyval) list \<Rightarrow> pystr \<Rightarrow> bool \<Rightarrow> (pystr \<times> pyval) list" where
  "update_metadata md glyphstream glyph_metadata now is_personal =
     AList.update (ascii ''stream_type'') (PStr (if is_personal then ascii ''personal'' else ascii ''shared''))
    (AList.update (ascii ''last_processed'') (PStr now)
    (AList.update (ascii ''glyph_metadata'') (PDict glyph_metadata)
    (AList.update (ascii ''glyphstream'') (PList (map PStr glyphstream)) md)))"

text \<open>
  The handler of the loop body: it appends one \<open>ERROR\<close> entry with
  \<open>f"{type(e).__name__}: {str(e)}"\<close>. It is not guarded: when this append raises, the
  exception leaves \<open>process_vault\<close> and the run stops.
\<close>

definition handler :: "env \<Rightarrow> path \<Rightarrow> nat \<Rightarrow> pyexn \<Rightarrow> state \<Rightarrow> (pyexn + nat) \<times> state" where
  "handler e md_file processed_files x s =
     (case log_assignment e (file_name md_file) [] ERROR
             (Some (exn_name x @ ascii '': '' @ exn_str e x)) s of
        (Inl y, s') \<Rightarrow> (Inl y, s')
      | (Inr u, s') \<Rightarrow> (Inr processed_files, s'))"

text \<open>
  A call of \<open>log_assignment\<close> inside the \<open>try\<close> block, which ends the iteration: when
  it returns, the counter is the second number; when it raises, the handler runs with
  the counter as it was.
\<close>

definition in_try ::
  "env \<Rightarrow> path \<Rightarrow> nat \<Rightarrow> nat \<Rightarrow> (pyexn + unit) \<times> state \<Rightarrow> (pyexn + nat) \<times> state" where
  "in_try e md_file processed_files counted r =
     (case r of
        (Inl x, s') \<Rightarrow> handler e md_file processed_files x s'
      | (Inr u, s') \<Rightarrow> (Inr counted, s'))"

text \<open>
  One iteration of the loop of \<open>process_vault\<close>, on the counter \<open>processed_files\<close> and
  the state. An exception raised anywhere in the body reaches the handler; what the body
  did before stays done. The result is the new counter, or the exception that the
  handler itself raised.
\<close>

definition visit_note :: "env \<Rightarrow> path \<Rightarrow> nat \<times> state \<Rightarrow> (pyexn + nat) \<times> state" where
  "visit_note e md_file = (\<lambda>(processed_files, s).
     case frontmatter_load e s md_file of
       Inl x \<Rightarrow> handler e md_file processed_files x s
     | Inr post \<Rightarrow>
         if dict_has (metadata post) (ascii ''glyphstream'')
         then in_try e md_file processed_files processed_files
                (log_assignment e (file_name md_file) [] SKIPPED None s)
         else (case is_personal_of (metadata post) of
           Inl x \<Rightarrow> handler e md_file processed_files x s
         | Inr is_personal \<Rightarrow>
             (case llm_assign_glyphs e (content post) is_personal s of (glyphstream, s1) \<Rightarrow>
               if glyphstream \<noteq> [] then
                 (case glyph_metadata_from glyphstream [] of
                    Inl x \<Rightarrow> handler e md_file processed_files x s1
                  | Inr glyph_metadata \<Rightarrow>
                      (case write_obsidian_file e md_file
                              (update_metadata (metadata post) glyphstream glyph_metadata
                                 (now_isoformat e (clock s1)) is_personal)
                              (content post) (s1\<lparr>clock := Suc (clock s1)\<rparr>) of
                         (ok, s2) \<Rightarrow>
                           if ok
                           then in_try e md_file processed_files (processed_files + 1)
                                  (log_assignment e (file_name md_file) glyphstream UPDATED None s2)
                           else in_try e md_file processed_files processed_files
                                  (log_assignment e (file_name md_file) glyphstream WRITE_FAILED
                                     None s2)))
               else in_try e md_file processed_files processed_files
                      (log_assignment e (file_name md_file) [] NO_MATCH None s1))))"



subsection \<open>A visit whose append succeeds\<close>

text \<open>
  \<open>process_note\<close> is the iteration read with every append to the log succeeding: the
  branches of \<open>visit_note\<close>, each ending in the state after the append and the counter.
  \<open>visit_note\<close> gives this result whenever the append it makes succeeds.
\<close>

definition log_error :: "env \<Rightarrow> path \<Rightarrow> pyexn \<Rightarrow> state \<Rightarrow> state" where
  "log_error e md_file x s =
     appended e (file_name md_file) [] ERROR (Some (exn_name x @ ascii '': '' @ exn_str e x)) s"

definition process_note :: "env \<Rightarrow> path \<Rightarrow> nat \<times> state \<Rightarrow> nat \<times> state" where
  "process_note e md_file = (\<lambda>(processed_files, s).
     case frontmatter_load e s md_file of
       Inl x \<Rightarrow> (processed_files, log_error e md_file x s)
     | Inr post \<Rightarrow>
         if dict_has (metadata post) (ascii ''glyphstream'')
         then (processed_files, appended e (file_name md_file) [] SKIPPED None s)
         else (case is_personal_of (metadata post) of
           Inl x \<Rightarrow> (processed_files, log_error e md_file x s)
         | Inr is_personal \<Rightarrow>
             (case llm_assign_glyphs e (content post) is_personal s of (glyphstream, s1) \<Rightarrow>
               if glyphstream \<noteq> [] then
                 (case glyph_metadata_from glyphstream [] of
                    Inl x \<Rightarrow> (processed_files, log_error e md_file x s1)
                  | Inr glyph_metadata \<Rightarrow>
                      (case write_obsidian_file e md_file
                              (update_metadata (metadata post) glyphstream glyph_metadata
                                 (now_isoformat e (clock s1)) is_personal)
                              (content post) (s1\<lparr>clock := Suc (clock s1)\<rparr>) of
                         (ok, s2) \<Rightarrow>
                           if ok
                           then (processed_files + 1,
                                 appended e (file_name md_file) glyphstream UPDATED None s2)
                           else (processed_files,
                                 appended e (file_name md_file) glyphstream WRITE_FAILED None s2)))
               else (processed_files, appended e (file_name md_file) [] NO_MATCH None s1))))"

section \<open>A small vault for concrete runs\<close>














section \<open>Properties of the response validator\<close>

subsection \<open>Auxiliary facts\<close>

lemmas glyph_defs = glyph_paradox_def glyph_witness_def glyph_recursion_def glyph_eternal_def
  glyph_breath_def glyph_temporal_def glyph_threshold_def

lemma lexicon_keys:
  "map fst GLYPH_LEXICON = [glyph_paradox, glyph_witness, glyph_recursion, glyph_eternal,
     glyph_breath, glyph_temporal, glyph_threshold]"
  by (simp add: GLYPH_LEXICON_def)

lemma permission_glyphs_eq: "permission_glyphs = [glyph_temporal, glyph_threshold]"
  by (simp add: permission_glyphs_def GLYPH_LEXICON_def)

lemma permission_gated_iff: "permission_gated g \<longleftrightarrow> g \<in> set permission_glyphs"
  by (simp add: permission_gated_def permission_glyphs_eq GLYPH_LEXICON_def glyph_defs)

lemma strip_glyph:
  "strip glyph_paradox = glyph_paradox" "strip glyph_witness = glyph_witness"
  "strip glyph_recursion = glyph_recursion" "strip glyph_eternal = glyph_eternal"
  "strip glyph_breath = glyph_breath" "strip glyph_temporal = glyph_temporal"
  "strip glyph_threshold = glyph_threshold"
  by (simp_all add: strip_def glyph_defs is_space_def)

lemma valid_glyphs_filter: "valid_glyphs toks = filter in_lexicon (map strip toks)"
  by (simp add: valid_glyphs_def filter_map comp_def)

lemma validate_personal: "validate_glyphstream toks True = take 3 (valid_glyphs toks)"
  by (simp add: validate_glyphstream_def)

lemma validate_shared:
  "validate_glyphstream toks False =
     (if list_ex permission_gated (valid_glyphs toks) then take 7 (valid_glyphs toks) else [])"
proof -
  have "permission_gated = (\<lambda>g. g \<in> set permission_glyphs)"
    by (rule ext) (simp add: permission_gated_iff)
  then show ?thesis by (simp add: validate_glyphstream_def Let_def)
qed

lemma validate_prefix: "\<exists>k. validate_glyphstream toks p = take k (valid_glyphs toks)"
proof (cases "validate_glyphstream toks p = []")
  case True
  then have "validate_glyphstream toks p = take 0 (valid_glyphs toks)" by simp
  then show ?thesis ..
next
  case False
  then have "validate_glyphstream toks p = take (if p then 3 else 7) (valid_glyphs toks)"
    by (simp add: validate_glyphstream_def Let_def split: if_splits)
  then show ?thesis ..
qed

lemma validate_length: "length (validate_glyphstream toks p) \<le> (if p then 3 else 7)"
  by (simp add: validate_glyphstream_def Let_def)

lemma validate_in_lexicon: "g \<in> set (validate_glyphstream toks p) \<Longrightarrow> in_lexicon g"
proof -
  assume a: "g \<in> set (validate_glyphstream toks p)"
  obtain k where "validate_glyphstream toks p = take k (valid_glyphs toks)"
    using validate_prefix by blast
  with a have "g \<in> set (valid_glyphs toks)" by (auto dest: in_set_takeD)
  then show ?thesis by (auto simp: valid_glyphs_filter)
qed

subsection \<open>What the validator keeps\<close>

text \<open>
  C3. The validator trims every token and keeps exactly the trimmed tokens that are keys
  of the lexicon, in their order and with their repetitions. For a personal stream it
  returns the first 3 of them. For a shared stream it returns the first 7 of them when a
  permission-gated symbol is among them, and the empty stream otherwise (the sequence
  that is truncated is the one the gate leaves). So the result has at most 3
  respectively 7 elements and every element is a lexicon symbol.
\<close>

theorem validator_filters_in_order_and_truncates:
  "valid_glyphs toks = filter (\<lambda>t. t \<in> set (map fst GLYPH_LEXICON)) (map strip toks) \<and>
   validate_glyphstream toks True = take 3 (valid_glyphs toks) \<and>
   validate_glyphstream toks False =
     (if list_ex permission_gated (valid_glyphs toks) then take 7 (valid_glyphs toks) else []) \<and>
   length (validate_glyphstream toks True) \<le> 3 \<and>
   length (validate_glyphstream toks False) \<le> 7 \<and>
   (\<forall>g \<in> set (validate_glyphstream toks is_personal). g \<in> set (map fst GLYPH_LEXICON))"
proof -
  have a: "valid_glyphs toks = filter (\<lambda>t. t \<in> set (map fst GLYPH_LEXICON)) (map strip toks)"
    using valid_glyphs_filter [of toks] by (simp add: in_lexicon_def [abs_def])
  have b: "validate_glyphstream toks False =
     (if list_ex permission_gated (valid_glyphs toks) then take 7 (valid_glyphs toks) else [])"
    by (rule validate_shared)
  have c: "length (validate_glyphstream toks True) \<le> 3" using validate_length [of toks True] by simp
  have d: "length (validate_glyphstream toks False) \<le> 7" using validate_length [of toks False] by simp
  have e: "\<forall>g \<in> set (validate_glyphstream toks is_personal). g \<in> set (map fst GLYPH_LEXICON)"
    using validate_in_lexicon [of _ toks is_personal] by (simp add: in_lexicon_def)
  from a validate_personal [of toks] b c d e show ?thesis by simp
qed

theorem validator_filters_in_order_and_truncates_witness:
  "validate_glyphstream
      [32 # glyph_paradox, ascii ''x'', glyph_paradox, glyph_recursion @ [10], glyph_eternal,
       glyph_temporal] True = [glyph_paradox, glyph_paradox, glyph_recursion] \<and>
   validate_glyphstream
      [glyph_temporal, glyph_paradox, ascii ''no'', glyph_paradox, glyph_witness, glyph_witness,
       glyph_breath, glyph_eternal, glyph_threshold, glyph_recursion] False =
      [glyph_temporal, glyph_paradox, glyph_paradox, glyph_witness, glyph_witness, glyph_breath,
       glyph_eternal] \<and>
   set [glyph_temporal, glyph_paradox, glyph_paradox, glyph_witness, glyph_witness, glyph_breath,
        glyph_eternal] \<subseteq> set (map fst GLYPH_LEXICON)"
proof -
  let ?personal = "[32 # glyph_paradox, ascii ''x'', glyph_paradox, glyph_recursion @ [10],
       glyph_eternal, glyph_temporal]"
  let ?shared = "[glyph_temporal, glyph_paradox, ascii ''no'', glyph_paradox, glyph_witness,
       glyph_witness, glyph_breath, glyph_eternal, glyph_threshold, glyph_recursion]"
  have v: "valid_glyphs ?personal = [glyph_paradox, glyph_paradox, glyph_recursion, glyph_eternal,
       glyph_temporal]"
    by (simp add: valid_glyphs_def in_lexicon_def lexicon_keys strip_def is_space_def glyph_defs
          ascii_def)
  have w: "valid_glyphs ?shared = [glyph_temporal, glyph_paradox, glyph_paradox, glyph_witness,
       glyph_witness, glyph_breath, glyph_eternal, glyph_threshold, glyph_recursion]"
    by (simp add: valid_glyphs_def in_lexicon_def lexicon_keys strip_def is_space_def glyph_defs
          ascii_def)
  have g: "permission_gated glyph_temporal"
    by (simp add: permission_gated_iff permission_glyphs_eq)
  from validator_filters_in_order_and_truncates [of ?personal True]
  have 1: "validate_glyphstream ?personal True = take 3 (valid_glyphs ?personal)" by blast
  from validator_filters_in_order_and_truncates [of ?shared False]
  have 2: "validate_glyphstream ?shared False =
      (if list_ex permission_gated (valid_glyphs ?shared) then take 7 (valid_glyphs ?shared)
       else [])"
    and 3: "\<forall>g \<in> set (validate_glyphstream ?shared False). g \<in> set (map fst GLYPH_LEXICON)"
    by blast+
  from 2 w g have 4: "validate_glyphstream ?shared False =
      [glyph_temporal, glyph_paradox, glyph_paradox, glyph_witness, glyph_witness, glyph_breath,
       glyph_eternal]" by simp
  from 3 have "set (validate_glyphstream ?shared False) \<subseteq> set (map fst GLYPH_LEXICON)" by blast
  with 1 v 4 show ?thesis by simp
qed

subsection \<open>The gate of the shared stream\<close>

text \<open>
  C1. The claim is that a shared stream returned by the validator is empty or holds a
  permission-gated glyph. The source tests for a permission glyph among all valid tokens
  and truncates afterwards: with seven valid tokens that are not gated followed by a
  gated one, the result is the seven tokens, none of them gated.
\<close>

theorem shared_stream_without_permission_glyph:
  "validate_glyphstream
     [glyph_paradox, glyph_paradox, glyph_paradox, glyph_paradox, glyph_paradox, glyph_paradox,
      glyph_paradox, glyph_temporal] False =
     [glyph_paradox, glyph_paradox, glyph_paradox, glyph_paradox, glyph_paradox, glyph_paradox,
      glyph_paradox] \<and>
   \<not> permission_gated glyph_paradox"
proof -
  have "\<not> permission_gated glyph_paradox"
    by (simp add: permission_gated_iff permission_glyphs_eq glyph_defs)
  moreover have "in_lexicon glyph_paradox" "in_lexicon glyph_temporal"
    by (simp_all add: in_lexicon_def lexicon_keys)
  moreover have "permission_gated glyph_temporal"
    by (simp add: permission_gated_iff permission_glyphs_eq)
  ultimately show ?thesis
    by (simp add: validate_shared valid_glyphs_def strip_glyph)
qed

text \<open>
  C4. For a shared stream, when none of the trimmed valid tokens is permission-gated, the
  validator returns the empty stream.
\<close>

theorem shared_gate_rejects:
  "\<forall>g \<in> set (filter in_lexicon (map strip toks)). \<not> permission_gated g \<Longrightarrow>
   validate_glyphstream toks False = []"
  by (simp add: validate_shared valid_glyphs_filter list_ex_iff)

theorem shared_gate_rejects_witness:
  "\<not> list_ex permission_gated (filter in_lexicon (map strip [glyph_paradox, glyph_recursion])) \<and>
   validate_glyphstream [glyph_paradox, glyph_recursion] False = []"
proof -
  have h: "\<forall>g \<in> set (filter in_lexicon (map strip [glyph_paradox, glyph_recursion])).
             \<not> permission_gated g"
    by (simp add: in_lexicon_def lexicon_keys strip_glyph permission_gated_iff permission_glyphs_eq)
       (simp add: glyph_defs)
  from h have "\<not> list_ex permission_gated
                 (filter in_lexicon (map strip [glyph_paradox, glyph_recursion]))"
    unfolding list_ex_iff by blast
  with shared_gate_rejects [OF h] show ?thesis by blast
qed

subsection \<open>Repeated symbols\<close>

text \<open>
  C5. The claim is that no symbol occurs twice in a validated stream. The validator does
  not remove repetitions: the same valid token twice gives a stream with that symbol twice.
\<close>

theorem repeated_symbol_counterexample:
  "\<not> distinct (validate_glyphstream [glyph_paradox, glyph_paradox] True)"
  by (simp add: validate_glyphstream_def valid_glyphs_def in_lexicon_def lexicon_keys strip_glyph)

text \<open>
  C5, as the source has it: every stream is a prefix of the sequence of trimmed tokens
  that are lexicon symbols, so a symbol repeated among those tokens can be repeated in
  the stream; and the stream has no repeated symbol whenever those tokens have none.
\<close>

theorem stream_is_prefix_of_valid_tokens:
  "(\<exists>k. validate_glyphstream toks is_personal = take k (filter in_lexicon (map strip toks))) \<and>
   (distinct (filter in_lexicon (map strip toks)) \<longrightarrow>
      distinct (validate_glyphstream toks is_personal))"
  using validate_prefix [of toks is_personal] by (auto simp: valid_glyphs_filter)

theorem stream_is_prefix_of_valid_tokens_witness:
  "distinct (filter in_lexicon (map strip [glyph_paradox, glyph_temporal])) \<and>
   distinct (validate_glyphstream [glyph_paradox, glyph_temporal] False) \<and>
   (\<exists>k. validate_glyphstream [glyph_paradox, glyph_paradox] True =
          take k (filter in_lexicon (map strip [glyph_paradox, glyph_paradox])))"
proof -
  have h: "distinct (filter in_lexicon (map strip [glyph_paradox, glyph_temporal]))"
    by (simp add: in_lexicon_def lexicon_keys strip_glyph) (simp add: glyph_defs)
  from stream_is_prefix_of_valid_tokens [of "[glyph_paradox, glyph_temporal]" False] h
  have "distinct (validate_glyphstream [glyph_paradox, glyph_temporal] False)" by blast
  moreover from stream_is_prefix_of_valid_tokens [of "[glyph_paradox, glyph_paradox]" True]
  have "\<exists>k. validate_glyphstream [glyph_paradox, glyph_paradox] True =
          take k (filter in_lexicon (map strip [glyph_paradox, glyph_paradox]))" by blast
  ultimately show ?thesis using h by blast
qed

section \<open>Properties of the note processor\<close>

subsection \<open>Appending to the log, and the handler\<close>

lemma appended_fields:
  "fs (appended e f gs a err s) = fs s"
  "llm_trace (appended e f gs a err s) = llm_trace s"
  "log (appended e f gs a err s) =
     Some (log_lines s @ [\<lparr>timestamp = now_isoformat e (clock s), entry_file = f, action = a,
        glyphs = gs, run_id = now_run_id e (Suc (clock s)), error = err\<rparr>])"
  by (simp_all add: appended_def new_entry_def)


lemma log_assignment_cases:
  assumes "log_assignment e f gs a err s = (r, s')"
  shows "fs s' = fs s \<and> llm_trace s' = llm_trace s \<and>
         ((r = Inr () \<and> s' = appended e f gs a err s) \<or>
          ((\<exists>x. r = Inl x) \<and> log_lines s' = log_lines s))"
  using assms
  by (auto simp: log_assignment_def appended_fields log_lines_def split: option.splits if_splits)




lemma in_try_ok:
  "log_assignment e f gs a err s = (Inr u, s') \<Longrightarrow>
   in_try e p n c (log_assignment e f gs a err s) = (Inr c, s')"
  by (simp add: in_try_def)


subsection \<open>What a visit does to the files and to the log\<close>




lemma visit_note_load_error:
  "frontmatter_load e s p = Inl x \<Longrightarrow> visit_note e p (n, s) = handler e p n x s"
  by (simp add: visit_note_def)

lemma visit_note_skipped:
  "frontmatter_load e s p = Inr post \<Longrightarrow> dict_has (metadata post) (ascii ''glyphstream'') \<Longrightarrow>
   visit_note e p (n, s) = in_try e p n n (log_assignment e (file_name p) [] SKIPPED None s)"
  by (simp add: visit_note_def)

lemma visit_note_tags_error:
  "frontmatter_load e s p = Inr post \<Longrightarrow> \<not> dict_has (metadata post) (ascii ''glyphstream'') \<Longrightarrow>
   is_personal_of (metadata post) = Inl x \<Longrightarrow>
   visit_note e p (n, s) = handler e p n x s"
  by (simp add: visit_note_def)

lemma visit_note_no_match:
  "frontmatter_load e s p = Inr post \<Longrightarrow> \<not> dict_has (metadata post) (ascii ''glyphstream'') \<Longrightarrow>
   is_personal_of (metadata post) = Inr ip \<Longrightarrow>
   llm_assign_glyphs e (content post) ip s = ([], s1) \<Longrightarrow>
   visit_note e p (n, s) = in_try e p n n (log_assignment e (file_name p) [] NO_MATCH None s1)"
  by (simp add: visit_note_def)

lemma visit_note_lexicon_error:
  "frontmatter_load e s p = Inr post \<Longrightarrow> \<not> dict_has (metadata post) (ascii ''glyphstream'') \<Longrightarrow>
   is_personal_of (metadata post) = Inr ip \<Longrightarrow>
   llm_assign_glyphs e (content post) ip s = (gs, s1) \<Longrightarrow> gs \<noteq> [] \<Longrightarrow>
   glyph_metadata_from gs [] = Inl x \<Longrightarrow>
   visit_note e p (n, s) = handler e p n x s1"
  by (simp add: visit_note_def)

lemma visit_note_written:
  "frontmatter_load e s p = Inr post \<Longrightarrow> \<not> dict_has (metadata post) (ascii ''glyphstream'') \<Longrightarrow>
   is_personal_of (metadata post) = Inr ip \<Longrightarrow>
   llm_assign_glyphs e (content post) ip s = (gs, s1) \<Longrightarrow> gs \<noteq> [] \<Longrightarrow>
   glyph_metadata_from gs [] = Inr gm \<Longrightarrow>
   write_obsidian_file e p (update_metadata (metadata post) gs gm (now_isoformat e (clock s1)) ip)
     (content post) (s1\<lparr>clock := Suc (clock s1)\<rparr>) = (ok, s2) \<Longrightarrow>
   visit_note e p (n, s) =
     (if ok then in_try e p n (n + 1) (log_assignment e (file_name p) gs UPDATED None s2)
      else in_try e p n n (log_assignment e (file_name p) gs WRITE_FAILED None s2))"
  by (simp add: visit_note_def)




subsection \<open>Runs on the small vault\<close>










subsection \<open>Visits whose append succeeds\<close>


lemma process_note_load_error:
  "frontmatter_load e s p = Inl x \<Longrightarrow> process_note e p (n, s) = (n, log_error e p x s)"
  by (simp add: process_note_def)

lemma process_note_skipped:
  "frontmatter_load e s p = Inr post \<Longrightarrow> dict_has (metadata post) (ascii ''glyphstream'') \<Longrightarrow>
   process_note e p (n, s) = (n, appended e (file_name p) [] SKIPPED None s)"
  by (simp add: process_note_def)

lemma process_note_tags_error:
  "frontmatter_load e s p = Inr post \<Longrightarrow> \<not> dict_has (metadata post) (ascii ''glyphstream'') \<Longrightarrow>
   is_personal_of (metadata post) = Inl x \<Longrightarrow>
   process_note e p (n, s) = (n, log_error e p x s)"
  by (simp add: process_note_def)

lemma process_note_no_match:
  "frontmatter_load e s p = Inr post \<Longrightarrow> \<not> dict_has (metadata post) (ascii ''glyphstream'') \<Longrightarrow>
   is_personal_of (metadata post) = Inr ip \<Longrightarrow>
   llm_assign_glyphs e (content post) ip s = ([], s1) \<Longrightarrow>
   process_note e p (n, s) = (n, appended e (file_name p) [] NO_MATCH None s1)"
  by (simp add: process_note_def)

lemma process_note_lexicon_error:
  "frontmatter_load e s p = Inr post \<Longrightarrow> \<not> dict_has (metadata post) (ascii ''glyphstream'') \<Longrightarrow>
   is_personal_of (metadata post) = Inr ip \<Longrightarrow>
   llm_assign_glyphs e (content post) ip s = (gs, s1) \<Longrightarrow> gs \<noteq> [] \<Longrightarrow>
   glyph_metadata_from gs [] = Inl x \<Longrightarrow>
   process_note e p (n, s) = (n, log_error e p x s1)"
  by (simp add: process_note_def)

lemma process_note_written:
  "frontmatter_load e s p = Inr post \<Longrightarrow> \<not> dict_has (metadata post) (ascii ''glyphstream'') \<Longrightarrow>
   is_personal_of (metadata post) = Inr ip \<Longrightarrow>
   llm_assign_glyphs e (content post) ip s = (gs, s1) \<Longrightarrow> gs \<noteq> [] \<Longrightarrow>
   glyph_metadata_from gs [] = Inr gm \<Longrightarrow>
   write_obsidian_file e p (update_metadata (metadata post) gs gm (now_isoformat e (clock s1)) ip)
     (content post) (s1\<lparr>clock := Suc (clock s1)\<rparr>) = (ok, s2) \<Longrightarrow>
   process_note e p (n, s) =
     (if ok then (n + 1, appended e (file_name p) gs UPDATED None s2)
      else (n, appended e (file_name p) gs WRITE_FAILED None s2))"
  by (simp add: process_note_def)






subsection \<open>The visit when its append succeeds\<close>

lemma log_assignment_fst_ok:
  "fst (log_assignment e f gs a err s) = Inr u \<Longrightarrow>
   log_assignment e f gs a err s = (Inr (), appended e f gs a err s)"
  using log_assignment_cases [of e f gs a err s "fst (log_assignment e f gs a err s)"
      "snd (log_assignment e f gs a err s)"]
  by (metis Inl_Inr_False prod.collapse)

lemma handler_ok:
  "fst (log_assignment e (file_name p) [] ERROR (Some (exn_name x @ ascii '': '' @ exn_str e x)) s)
     = Inr u \<Longrightarrow>
   handler e p n x s = (Inr n, log_error e p x s)"
  by (drule log_assignment_fst_ok) (simp add: handler_def log_error_def)

lemma in_try_fst_ok:
  "fst (log_assignment e f gs a err s) = Inr u \<Longrightarrow>
   in_try e p n c (log_assignment e f gs a err s) = (Inr c, appended e f gs a err s)"
  by (drule log_assignment_fst_ok) (simp add: in_try_def)

text \<open>
  \<open>visit_note\<close> and \<open>process_note\<close>: the visit ends in the state and with the counter
  that \<open>process_note\<close> gives whenever the append that \<open>process_note\<close> assumes succeeds.
\<close>

lemma visit_note_process_note:
  "\<exists>f gs act err s0.
     snd (process_note e p (n, s)) = appended e f gs act err s0 \<and>
     (fst (log_assignment e f gs act err s0) = Inr () \<longrightarrow>
        visit_note e p (n, s) =
          (Inr (fst (process_note e p (n, s))), snd (process_note e p (n, s))))"
proof -
  let ?thesis' = "\<lambda>f gs act err s0.
     snd (process_note e p (n, s)) = appended e f gs act err s0 \<and>
     (fst (log_assignment e f gs act err s0) = Inr () \<longrightarrow>
        visit_note e p (n, s) =
          (Inr (fst (process_note e p (n, s))), snd (process_note e p (n, s))))"
  have err: "\<exists>f gs act err s0. ?thesis' f gs act err s0"
    if "process_note e p (n, s) = (n, log_error e p x s0)"
      and "visit_note e p (n, s) = handler e p n x s0" for x s0
  proof -
    have "?thesis' (file_name p) [] ERROR (Some (exn_name x @ ascii '': '' @ exn_str e x)) s0"
      using that by (auto simp: handler_ok) (simp add: log_error_def)
    then show ?thesis by blast
  qed
  have tried: "\<exists>f gs act err s0. ?thesis' f gs act err s0"
    if "process_note e p (n, s) = (c, appended e (file_name p) gs a None s0)"
      and "visit_note e p (n, s) = in_try e p n c (log_assignment e (file_name p) gs a None s0)"
    for c gs a s0
  proof -
    have "?thesis' (file_name p) gs a None s0"
      using that by (auto simp: in_try_fst_ok)
    then show ?thesis by blast
  qed
  show ?thesis
  proof (cases "frontmatter_load e s p")
    case (Inl x)
    then show ?thesis
      by (intro err [of x s]) (simp_all add: process_note_load_error visit_note_load_error)
  next
    case (Inr post)
    note load = this
    show ?thesis
    proof (cases "dict_has (metadata post) (ascii ''glyphstream'')")
      case True
      with load show ?thesis
        by (intro tried [of n "[]" SKIPPED s])
           (simp_all add: process_note_skipped visit_note_skipped)
    next
      case False
      note nokey = this
      show ?thesis
      proof (cases "is_personal_of (metadata post)")
        case (Inl x)
        with load nokey show ?thesis
          by (intro err [of x s]) (simp_all add: process_note_tags_error visit_note_tags_error)
      next
        case (Inr ip)
        note kind = this
        obtain gs s1 where assign: "llm_assign_glyphs e (content post) ip s = (gs, s1)"
          by (cases "llm_assign_glyphs e (content post) ip s")
        show ?thesis
        proof (cases "gs = []")
          case True
          with load nokey kind assign show ?thesis
            by (intro tried [of n "[]" NO_MATCH s1])
               (simp_all add: process_note_no_match visit_note_no_match)
        next
          case False
          note nonempty = this
          show ?thesis
          proof (cases "glyph_metadata_from gs []")
            case (Inl x)
            with load nokey kind assign nonempty show ?thesis
              by (intro err [of x s1])
                 (simp_all add: process_note_lexicon_error visit_note_lexicon_error)
          next
            case (Inr gm)
            obtain ok s2 where w: "write_obsidian_file e p
                (update_metadata (metadata post) gs gm (now_isoformat e (clock s1)) ip)
                (content post) (s1\<lparr>clock := Suc (clock s1)\<rparr>) = (ok, s2)"
              by (cases "write_obsidian_file e p
                (update_metadata (metadata post) gs gm (now_isoformat e (clock s1)) ip)
                (content post) (s1\<lparr>clock := Suc (clock s1)\<rparr>)")
            note pn = process_note_written [OF load nokey kind assign nonempty Inr w, of n]
            note vn = visit_note_written [OF load nokey kind assign nonempty Inr w, of n]
            show ?thesis
            proof (cases ok)
              case True
              with pn vn show ?thesis by (intro tried [of "n + 1" gs UPDATED s2]) simp_all
            next
              case False
              with pn vn show ?thesis by (intro tried [of n gs WRITE_FAILED s2]) simp_all
            qed
          qed
        qed
      qed
    qed
  qed
qed

subsection \<open>Short notes\<close>









subsection \<open>The stream kind\<close>

lemma py_str_contains_iff:
  "py_str_contains needle hay \<longleftrightarrow> (\<exists>pre suf. hay = pre @ needle @ suf)"
proof (induction hay)
  case Nil
  then show ?case by simp
next
  case (Cons c cs)
  show ?case
  proof
    assume "py_str_contains needle (c # cs)"
    then consider "take (length needle) (c # cs) = needle" | "py_str_contains needle cs"
      by auto
    then show "\<exists>pre suf. c # cs = pre @ needle @ suf"
    proof cases
      case 1
      then have "c # cs = [] @ needle @ drop (length needle) (c # cs)"
        by (metis append_Nil append_take_drop_id)
      then show ?thesis by blast
    next
      case 2
      with Cons.IH obtain pre suf where "cs = pre @ needle @ suf" by blast
      then have "c # cs = (c # pre) @ needle @ suf" by simp
      then show ?thesis by blast
    qed
  next
    assume "\<exists>pre suf. c # cs = pre @ needle @ suf"
    then obtain pre suf where eq: "c # cs = pre @ needle @ suf" by blast
    show "py_str_contains needle (c # cs)"
    proof (cases pre)
      case Nil
      with eq have "take (length needle) (c # cs) = needle" by simp
      then show ?thesis by simp
    next
      case (Cons d pre')
      with eq have "cs = pre' @ needle @ suf" by simp
      with Cons.IH have "py_str_contains needle cs" by blast
      then show ?thesis by simp
    qed
  qed
qed

text \<open>
  C10. The stream kind comes from the membership test on the raw value of \<open>tags\<close>: when
  that value is a string, the note is shared exactly when \<open>shared_experience\<close> occurs in
  it as a substring (so \<open>my_shared_experiences\<close> makes the note shared), and a note
  without the key \<open>tags\<close> is personal.
\<close>

theorem stream_kind_from_raw_tags:
  "(map_of md (ascii ''tags'') = Some (PStr t) \<longrightarrow>
      is_personal_of md = Inr (\<not> (\<exists>pre suf. t = pre @ ascii ''shared_experience'' @ suf))) \<and>
   (map_of md (ascii ''tags'') = None \<longrightarrow> is_personal_of md = Inr True) \<and>
   is_personal_of [(ascii ''tags'', PStr (ascii ''my_shared_experiences''))] = Inr False"
proof -
  have a: "map_of md (ascii ''tags'') = Some (PStr t) \<longrightarrow>
      is_personal_of md = Inr (\<not> (\<exists>pre suf. t = pre @ ascii ''shared_experience'' @ suf))"
    by (simp add: is_personal_of_def dict_get_def bind_exn_def py_str_contains_iff)
  have b: "map_of md (ascii ''tags'') = None \<longrightarrow> is_personal_of md = Inr True"
    by (simp add: is_personal_of_def dict_get_def bind_exn_def)
  have "ascii ''my_shared_experiences'' = ascii ''my_'' @ ascii ''shared_experience'' @ ascii ''s''"
    by (simp add: ascii_def)
  then have "py_str_contains (ascii ''shared_experience'') (ascii ''my_shared_experiences'')"
    unfolding py_str_contains_iff by blast
  then have c: "is_personal_of [(ascii ''tags'', PStr (ascii ''my_shared_experiences''))] = Inr False"
    by (simp add: is_personal_of_def dict_get_def bind_exn_def)
  from a b c show ?thesis by blast
qed

theorem stream_kind_from_raw_tags_witness:
  "map_of [(ascii ''tags'', PStr (ascii ''a shared_experience''))] (ascii ''tags'') =
     Some (PStr (ascii ''a shared_experience'')) \<and>
   is_personal_of [(ascii ''tags'', PStr (ascii ''a shared_experience''))] = Inr False \<and>
   map_of [(ascii ''title'', PStr (ascii ''shared_experience''))] (ascii ''tags'') = None \<and>
   is_personal_of [(ascii ''title'', PStr (ascii ''shared_experience''))] = Inr True"
proof -
  have m: "map_of [(ascii ''tags'', PStr (ascii ''a shared_experience''))] (ascii ''tags'') =
     Some (PStr (ascii ''a shared_experience''))" by simp
  have "ascii ''a shared_experience'' = ascii ''a '' @ ascii ''shared_experience'' @ []"
    by (simp add: ascii_def)
  then have ex: "\<exists>pre suf. ascii ''a shared_experience'' = pre @ ascii ''shared_experience'' @ suf"
    by blast
  have n: "map_of [(ascii ''title'', PStr (ascii ''shared_experience''))] (ascii ''tags'') = None"
    by (simp add: ascii_def)
  from stream_kind_from_raw_tags
         [of "[(ascii ''tags'', PStr (ascii ''a shared_experience''))]" "ascii ''a shared_experience''"]
       m ex
  have 1: "is_personal_of [(ascii ''tags'', PStr (ascii ''a shared_experience''))] = Inr False"
    by simp
  from stream_kind_from_raw_tags [of "[(ascii ''title'', PStr (ascii ''shared_experience''))]"] n
  have 2: "is_personal_of [(ascii ''title'', PStr (ascii ''shared_experience''))] = Inr True"
    by blast
  from m 1 n 2 show ?thesis by blast
qed

subsection \<open>Failed writes\<close>
















end
